theory Spec2Isabelle
  imports Main
begin

section \<open>The macOS build pipeline generator\<close>

text \<open>
  A shallow embedding of \<^verbatim>\<open>.buildkite/pipelines/build_macos.json.py\<close>: the module-level
  tables, the function \<^verbatim>\<open>main\<close>, the three \<^verbatim>\<open>add_argument\<close> declarations of the script
  body, and the two library calls whose results the script's output consists of,
  \<^verbatim>\<open>itertools.product\<close> and \<^verbatim>\<open>json.dumps(pipeline, indent=2)\<close>.

  Python strings are modelled as HOL strings: a character is a code point below 256.
  The double quote, the backslash and the newline are written \<open>CHR 0x22\<close>, \<open>CHR 0x5C\<close>
  and \<open>CHR 0x0A\<close> where a literal cannot hold them.
\<close>

subsection \<open>Python values and errors\<close>

text \<open>
  The values the script builds and hands to \<^verbatim>\<open>json.dumps\<close>: strings, integers, lists and
  dictionaries. A dictionary is an association list in insertion order, the order in
  which Python iterates and serialises it; the dictionary displays of the script have
  distinct keys.
\<close>

datatype json =
    JStr string
  | JInt int
  | JList "json list"
  | JDict "(string \<times> json) list"

text \<open>
  A failed subscription \<^verbatim>\<open>d[k]\<close> raises \<^verbatim>\<open>KeyError\<close>; a rejected command line makes
  \<^verbatim>\<open>argparse\<close> print a usage message on standard error and raise \<^verbatim>\<open>SystemExit(2)\<close>.
\<close>

datatype error =
    KeyError string
  | SystemExit nat

definition getitem :: "(string \<times> 'a) list \<Rightarrow> string \<Rightarrow> error + 'a" where
  "getitem d k = (case map_of d k of None \<Rightarrow> Inl (KeyError k) | Some v \<Rightarrow> Inr v)"

text \<open>\<^verbatim>\<open>d.get(k)\<close>, used to read a field of a generated step.\<close>

fun field :: "json \<Rightarrow> string \<Rightarrow> json option" where
  "field (JDict d) k = map_of d k"
| "field _ k = None"

subsection \<open>The module-level tables (lines 23 to 50)\<close>

definition archs :: "string list" where
  "archs = [''aarch64'']"

definition build_types :: "string list" where
  "build_types = [''RelWithDebInfo'']"

definition actions :: "string list" where
  "actions = [''build'', ''debug'']"

definition agents :: "(string \<times> json) list" where
  "agents =
     [(''aarch64'', JDict
        [(''provider'', JStr ''orka''),
         (''image'', JStr ''ml-macos-13-arm-004.orkasi'')])]"

definition envs :: "(string \<times> json) list" where
  "envs =
     [(''aarch64'', JDict
        [(''TMPDIR'', JStr ''/tmp''),
         (''HOMEBREW_PREFIX'', JStr ''/opt/homebrew''),
         (''PATH'', JStr ''/opt/homebrew/bin:$PATH''),
         (''ML_DEBUG'', JStr ''0''),
         (''CPP_CROSS_COMPILE'', JStr ''''),
         (''CMAKE_FLAGS'', JStr ''-DCMAKE_TOOLCHAIN_FILE=cmake/darwin-aarch64.cmake''),
         (''RUN_TESTS'', JStr ''true''),
         (''BOOST_TEST_OUTPUT_FORMAT_FLAGS'',
            JStr ''--logger=JUNIT,error,boost_test_results.junit'')])]"

subsection \<open>The parsed arguments\<close>

text \<open>
  The namespace \<^verbatim>\<open>parse_args\<close> returns: one attribute for each declared option.
\<close>

record args =
  build_type :: "string option"
  action :: string
  build_aarch64 :: bool

subsection \<open>\<^verbatim>\<open>itertools.product\<close>\<close>

text \<open>
  \<^verbatim>\<open>product(xs, ys)\<close> yields the pairs with the rightmost element advancing fastest: for
  each element of \<open>xs\<close> in order, every element of \<open>ys\<close> in order.
\<close>

fun product_py :: "'a list \<Rightarrow> 'b list \<Rightarrow> ('a \<times> 'b) list" where
  "product_py [] ys = []"
| "product_py (x # xs) ys = map (\<lambda>y. (x, y)) ys @ product_py xs ys"

subsection \<open>The step record (lines 59 to 84)\<close>

text \<open>
  The dictionary display of the loop body. Its values are evaluated in the order
  written, so \<^verbatim>\<open>agents[arch]\<close> is looked up before \<^verbatim>\<open>envs[arch]\<close>; either raises
  \<^verbatim>\<open>KeyError\<close> for an architecture that is not a key. The f-strings are concatenations.
\<close>

definition step :: "args \<Rightarrow> string \<Rightarrow> string \<Rightarrow> error + json" where
  \<open>step a arch btype =
     (case getitem agents arch of
        Inl e \<Rightarrow> Inl e
      | Inr agent \<Rightarrow>
     (case getitem envs arch of
        Inl e \<Rightarrow> Inl e
      | Inr env \<Rightarrow>
          Inr (JDict
            [(''label'',
                JStr (''Build & test :cpp: for MacOS-'' @ arch @ ''-'' @ btype @ '' :macos:'')),
             (''timeout_in_minutes'', JStr ''300''),
             (''agents'', agent),
             (''commands'', JList
                [JStr (''if [[ "'' @ action a @ ''" == "debug" ]]; then export ML_DEBUG=1; fi''),
                 JStr ''.buildkite/scripts/steps/build_and_test.sh'']),
             (''depends_on'', JStr ''check_style''),
             (''key'', JStr (''build_test_macos-'' @ arch @ ''-'' @ btype)),
             (''env'', env),
             (''artifact_paths'',
                JStr ''*/**/unittest/boost_test_results.junit;*/**/unittest/ml_test_*''),
             (''plugins'', JDict
                [(''test-collector#v1.2.0'', JDict
                   [(''files'', JStr ''*/*/unittest/boost_test_results.junit''),
                    (''format'', JStr ''junit'')])]),
             (''notify'', JList
                [JDict
                   [(''github_commit_status'', JDict
                      [(''context'',
                          JStr (''Build and test on MacOS '' @ arch @ '' '' @ btype))])]])])))\<close>

subsection \<open>The loop of \<^verbatim>\<open>main\<close> (lines 53 to 84)\<close>

definition cur_build_types :: "args \<Rightarrow> string list" where
  "cur_build_types a = (case build_type a of None \<Rightarrow> build_types | Some b \<Rightarrow> [b])"

text \<open>
  The \<^verbatim>\<open>for\<close> loop over the pairs, appending to \<^verbatim>\<open>pipeline_steps\<close>; an exception in the
  body leaves the loop at once.
\<close>

fun main_loop :: "args \<Rightarrow> (string \<times> string) list \<Rightarrow> json list \<Rightarrow> error + json list" where
  "main_loop a [] pipeline_steps = Inr pipeline_steps"
| "main_loop a ((arch, btype) # rest) pipeline_steps =
     (case step a arch btype of
        Inl e \<Rightarrow> Inl e
      | Inr s \<Rightarrow> main_loop a rest (pipeline_steps @ [s]))"

text \<open>The value of \<^verbatim>\<open>pipeline_steps\<close> when the loop is left.\<close>

definition main_steps :: "args \<Rightarrow> error + json list" where
  "main_steps a = main_loop a (product_py archs (cur_build_types a)) []"

text \<open>The dictionary \<^verbatim>\<open>pipeline\<close> of lines 86 to 88.\<close>

definition main_pipeline :: "args \<Rightarrow> error + json" where
  "main_pipeline a =
     (case main_steps a of
        Inl e \<Rightarrow> Inl e
      | Inr pipeline_steps \<Rightarrow> Inr (JDict [(''steps'', JList pipeline_steps)]))"

subsection \<open>\<^verbatim>\<open>json.dumps(obj, indent=2)\<close>\<close>

text \<open>
  The encoder of the standard library, with its default \<^verbatim>\<open>ensure_ascii=True\<close>. A string is
  written between double quotes; \<^verbatim>\<open>ESCAPE_ASCII\<close> selects the backslash, the double quote
  and every character outside the range from space to tilde, and each selected character
  is replaced by its entry in \<^verbatim>\<open>ESCAPE_DCT\<close>, or by \<^verbatim>\<open>\uXXXX\<close> with four lower-case
  hexadecimal digits. (The library also enters the control characters below 0x20 in the
  table, with the same \<^verbatim>\<open>\uXXXX\<close> text as the fallback gives.)
\<close>

definition hex_digit :: "nat \<Rightarrow> char" where
  "hex_digit d = ''0123456789abcdef'' ! (d mod 16)"

definition u_escape :: "nat \<Rightarrow> string" where
  "u_escape n =
     [CHR 0x5C, CHR ''u'', hex_digit (n div 4096), hex_digit (n div 256),
      hex_digit (n div 16), hex_digit n]"

definition ESCAPE_DCT :: "(char \<times> string) list" where
  "ESCAPE_DCT =
     [(CHR 0x5C, [CHR 0x5C, CHR 0x5C]),
      (CHR 0x22, [CHR 0x5C, CHR 0x22]),
      (CHR 0x08, [CHR 0x5C, CHR ''b'']),
      (CHR 0x0C, [CHR 0x5C, CHR ''f'']),
      (CHR 0x0A, [CHR 0x5C, CHR ''n'']),
      (CHR 0x0D, [CHR 0x5C, CHR ''r'']),
      (CHR 0x09, [CHR 0x5C, CHR ''t''])]"

definition escape_ascii :: "char \<Rightarrow> bool" where
  "escape_ascii c \<longleftrightarrow>
     c = CHR 0x5C \<or> c = CHR 0x22 \<or> (of_char c :: nat) < 0x20 \<or> 0x7E < (of_char c :: nat)"

definition replace :: "char \<Rightarrow> string" where
  "replace c =
     (if escape_ascii c
      then (case map_of ESCAPE_DCT c of Some r \<Rightarrow> r | None \<Rightarrow> u_escape (of_char c))
      else [c])"

definition py_encode_basestring_ascii :: "string \<Rightarrow> string" where
  "py_encode_basestring_ascii s = [CHR 0x22] @ concat (map replace s) @ [CHR 0x22]"

text \<open>\<^verbatim>\<open>int.__repr__\<close>: the decimal digits, after a minus sign for a negative number.\<close>

fun nat_repr :: "nat \<Rightarrow> string" where
  "nat_repr n =
     (if n < 10 then [''0123456789'' ! n]
      else nat_repr (n div 10) @ [''0123456789'' ! (n mod 10)])"

definition int_repr :: "int \<Rightarrow> string" where
  "int_repr i = (if i < 0 then ''-'' @ nat_repr (nat (- i)) else nat_repr (nat i))"

text \<open>
  With \<^verbatim>\<open>indent=n\<close> the item separator is a comma, followed by a newline and \<open>n\<close> spaces for
  each level of nesting; with \<^verbatim>\<open>indent=None\<close> it is a comma and a space and nothing is
  broken into lines. The key separator is a colon and a space in both cases.
\<close>

fun newline_indent :: "nat option \<Rightarrow> nat \<Rightarrow> string" where
  "newline_indent None level = []"
| "newline_indent (Some n) level = CHR 0x0A # replicate (n * level) CHR '' ''"

fun item_separator :: "nat option \<Rightarrow> string" where
  "item_separator None = '', ''"
| "item_separator (Some n) = '',''"

fun join :: "string \<Rightarrow> string list \<Rightarrow> string" where
  "join sep [] = []"
| "join sep [x] = x"
| "join sep (x # y # ys) = x @ sep @ join sep (y # ys)"

text \<open>
  \<^verbatim>\<open>_iterencode\<close>, with the chunks it yields concatenated: an empty list is \<^verbatim>\<open>[]\<close> and an
  empty dictionary \<^verbatim>\<open>{}\<close>; otherwise the items stand one level deeper than the brackets
  around them.
\<close>

fun iterencode :: "nat option \<Rightarrow> nat \<Rightarrow> json \<Rightarrow> string" where
  "iterencode indent level (JStr s) = py_encode_basestring_ascii s"
| "iterencode indent level (JInt i) = int_repr i"
| "iterencode indent level (JList lst) =
     (if lst = [] then ''[]''
      else ''['' @ newline_indent indent (level + 1) @
           join (item_separator indent @ newline_indent indent (level + 1))
             (map (iterencode indent (level + 1)) lst) @
           newline_indent indent level @ '']'')"
| "iterencode indent level (JDict dct) =
     (if dct = [] then ''{}''
      else ''{'' @ newline_indent indent (level + 1) @
           join (item_separator indent @ newline_indent indent (level + 1))
             (map (\<lambda>(k, v). py_encode_basestring_ascii k @ '': '' @
                     iterencode indent (level + 1) v) dct) @
           newline_indent indent level @ ''}'')"

definition dumps :: "json \<Rightarrow> nat option \<Rightarrow> string" where
  "dumps obj indent = iterencode indent 0 obj"

subsection \<open>\<^verbatim>\<open>main\<close> (lines 52 to 89)\<close>

text \<open>
  What \<^verbatim>\<open>main\<close> writes to standard output: the serialised pipeline and the newline that
  \<^verbatim>\<open>print\<close> adds. An exception raised in the loop comes before the only \<^verbatim>\<open>print\<close>, so
  then nothing is written.
\<close>

definition main :: "args \<Rightarrow> error + string" where
  "main a =
     (case main_pipeline a of
        Inl e \<Rightarrow> Inl e
      | Inr pipeline \<Rightarrow> Inr (dumps pipeline (Some 2) @ [CHR 0x0A]))"

subsection \<open>The command line (lines 94 to 113)\<close>

text \<open>
  The command line as \<^verbatim>\<open>argparse\<close> sees it after splitting \<^verbatim>\<open>sys.argv\<close> into options: the
  value given to \<^verbatim>\<open>--build-type\<close> and to \<^verbatim>\<open>--action\<close>, if the option is present, and
  whether \<^verbatim>\<open>--build-aarch64\<close> is present. The splitting itself is the library's and is
  not modelled.
\<close>

record command_line =
  opt_build_type :: "string option"
  opt_action :: "string option"
  opt_build_aarch64 :: bool

text \<open>
  \<^verbatim>\<open>parse_args\<close> for the three declarations: a value given to an option with
  \<^verbatim>\<open>choices\<close> must be one of them, or the parser reports the error and exits with status
  2; an absent option takes its \<^verbatim>\<open>default\<close>; \<^verbatim>\<open>store_true\<close> records the presence of the
  flag.
\<close>

definition parse_args :: "command_line \<Rightarrow> error + args" where
  "parse_args c =
     (case opt_build_type c of
        Some b \<Rightarrow>
          if b \<in> set build_types then
            (case opt_action c of
               Some v \<Rightarrow>
                 if v \<in> set actions
                 then Inr \<lparr>build_type = Some b, action = v, build_aarch64 = opt_build_aarch64 c\<rparr>
                 else Inl (SystemExit 2)
             | None \<Rightarrow>
                 Inr \<lparr>build_type = Some b, action = ''build'',
                      build_aarch64 = opt_build_aarch64 c\<rparr>)
          else Inl (SystemExit 2)
      | None \<Rightarrow>
          (case opt_action c of
             Some v \<Rightarrow>
               if v \<in> set actions
               then Inr \<lparr>build_type = None, action = v, build_aarch64 = opt_build_aarch64 c\<rparr>
               else Inl (SystemExit 2)
           | None \<Rightarrow>
               Inr \<lparr>build_type = None, action = ''build'',
                    build_aarch64 = opt_build_aarch64 c\<rparr>))"

text \<open>
  A run of the script: its standard output and its exit status. A rejected command line
  ends the process in \<^verbatim>\<open>parse_args\<close>, before \<^verbatim>\<open>main\<close> is called; an exception that
  \<^verbatim>\<open>main\<close> does not catch ends it with a traceback on standard error and status 1.
\<close>

record outcome =
  stdout :: string
  status :: nat

definition script :: "command_line \<Rightarrow> outcome" where
  "script c =
     (case parse_args c of
        Inl (SystemExit n) \<Rightarrow> \<lparr>stdout = [], status = n\<rparr>
      | Inl (KeyError k) \<Rightarrow> \<lparr>stdout = [], status = 1\<rparr>
      | Inr a \<Rightarrow>
          (case main a of
             Inl (SystemExit n) \<Rightarrow> \<lparr>stdout = [], status = n\<rparr>
           | Inl (KeyError k) \<Rightarrow> \<lparr>stdout = [], status = 1\<rparr>
           | Inr out \<Rightarrow> \<lparr>stdout = out, status = 0\<rparr>))"

section \<open>Properties\<close>

subsection \<open>The pairs of the loop and the records it appends\<close>

lemma product_py_length: "length (product_py xs ys) = length xs * length ys"
  by (induction xs) simp_all

lemma product_py_set: "set (product_py xs ys) = set xs \<times> set ys"
  by (induction xs) auto

lemma product_py_nth:
  "i < length xs \<Longrightarrow> j < length ys \<Longrightarrow> product_py xs ys ! (i * length ys + j) = (xs ! i, ys ! j)"
proof (induction xs arbitrary: i)
  case Nil
  then show ?case by simp
next
  case (Cons x xs)
  show ?case
  proof (cases i)
    case 0
    with Cons.prems show ?thesis by (simp add: nth_append)
  next
    case (Suc k)
    with Cons.prems have k: "k < length xs" by simp
    have "product_py (x # xs) ys ! (i * length ys + j) = product_py xs ys ! (k * length ys + j)"
      using Suc by (simp add: nth_append)
    with Cons.IH [OF k Cons.prems(2)] Suc show ?thesis by simp
  qed
qed

lemma step_aarch64:
  \<open>step a ''aarch64'' b =
     Inr (JDict
       [(''label'', JStr (''Build & test :cpp: for MacOS-aarch64-'' @ b @ '' :macos:'')),
        (''timeout_in_minutes'', JStr ''300''),
        (''agents'', JDict
           [(''provider'', JStr ''orka''),
            (''image'', JStr ''ml-macos-13-arm-004.orkasi'')]),
        (''commands'', JList
           [JStr (''if [[ "'' @ action a @ ''" == "debug" ]]; then export ML_DEBUG=1; fi''),
            JStr ''.buildkite/scripts/steps/build_and_test.sh'']),
        (''depends_on'', JStr ''check_style''),
        (''key'', JStr (''build_test_macos-aarch64-'' @ b)),
        (''env'', JDict
           [(''TMPDIR'', JStr ''/tmp''),
            (''HOMEBREW_PREFIX'', JStr ''/opt/homebrew''),
            (''PATH'', JStr ''/opt/homebrew/bin:$PATH''),
            (''ML_DEBUG'', JStr ''0''),
            (''CPP_CROSS_COMPILE'', JStr ''''),
            (''CMAKE_FLAGS'', JStr ''-DCMAKE_TOOLCHAIN_FILE=cmake/darwin-aarch64.cmake''),
            (''RUN_TESTS'', JStr ''true''),
            (''BOOST_TEST_OUTPUT_FORMAT_FLAGS'',
               JStr ''--logger=JUNIT,error,boost_test_results.junit'')]),
        (''artifact_paths'',
           JStr ''*/**/unittest/boost_test_results.junit;*/**/unittest/ml_test_*''),
        (''plugins'', JDict
           [(''test-collector#v1.2.0'', JDict
              [(''files'', JStr ''*/*/unittest/boost_test_results.junit''),
               (''format'', JStr ''junit'')])]),
        (''notify'', JList
           [JDict
              [(''github_commit_status'', JDict
                 [(''context'', JStr (''Build and test on MacOS aarch64 '' @ b))])]])])\<close>
  by (simp add: step_def getitem_def agents_def envs_def)

lemma step_ok: "arch \<in> set archs \<Longrightarrow> \<exists>s. step a arch b = Inr s"
  by (simp add: archs_def step_aarch64)

lemma main_loop_map:
  "\<forall>p \<in> set ps. fst p \<in> set archs \<Longrightarrow>
   \<exists>ss. main_loop a ps acc = Inr (acc @ ss) \<and> map Inr ss = map (\<lambda>(arch, b). step a arch b) ps"
proof (induction ps arbitrary: acc)
  case Nil
  then show ?case by simp
next
  case (Cons p ps)
  obtain arch b where p: "p = (arch, b)" by (cases p)
  from Cons.prems p have "arch \<in> set archs" by simp
  then obtain s where s: "step a arch b = Inr s" using step_ok by blast
  from Cons.prems have "\<forall>p \<in> set ps. fst p \<in> set archs" by simp
  from Cons.IH [OF this, of "acc @ [s]"] obtain ss where
    ss: "main_loop a ps (acc @ [s]) = Inr ((acc @ [s]) @ ss)"
        "map Inr ss = map (\<lambda>(arch, b). step a arch b) ps" by blast
  have "main_loop a (p # ps) acc = Inr (acc @ (s # ss))" using p s ss(1) by simp
  moreover have "map Inr (s # ss) = map (\<lambda>(arch, b). step a arch b) (p # ps)"
    using p s ss(2) by simp
  ultimately show ?case by blast
qed

lemma main_steps_map:
  "\<exists>ss. main_steps a = Inr ss \<and>
        map Inr ss = map (\<lambda>(arch, b). step a arch b) (product_py archs (cur_build_types a))"
proof -
  have "\<forall>p \<in> set (product_py archs (cur_build_types a)). fst p \<in> set archs"
    by (simp add: product_py_set)
  from main_loop_map [OF this, of a "[]"] show ?thesis by (simp add: main_steps_def)
qed

text \<open>
  Both tables have one entry, so the loop runs once: for the architecture
  \<^verbatim>\<open>aarch64\<close> and the build type given, or else the one build type of the list.
\<close>

lemma main_steps_single:
  "main_steps a =
     (case step a ''aarch64'' (case build_type a of None \<Rightarrow> ''RelWithDebInfo'' | Some b \<Rightarrow> b) of
        Inl e \<Rightarrow> Inl e
      | Inr s \<Rightarrow> Inr [s])"
  by (simp add: main_steps_def archs_def cur_build_types_def build_types_def
      split: option.splits sum.splits)

subsection \<open>The two scenarios\<close>

text \<open>
  C1. The command line \<^verbatim>\<open>--build-type RelWithDebInfo --action debug\<close> is accepted and
  gives exactly one step record; its \<^verbatim>\<open>commands\<close> are the string
  \<^verbatim>\<open>if [[ "debug" == "debug" ]]; then export ML_DEBUG=1; fi\<close> and then the script
  \<^verbatim>\<open>.buildkite/scripts/steps/build_and_test.sh\<close>. With the action \<^verbatim>\<open>build\<close>, whatever the
  other arguments are, the first command is the same conditional with \<^verbatim>\<open>build\<close> in the
  place of the action, and the two strings it compares differ.
\<close>

theorem debug_action_first_command:
  \<open>parse_args \<lparr>opt_build_type = Some ''RelWithDebInfo'', opt_action = Some ''debug'',
               opt_build_aarch64 = False\<rparr> =
     Inr \<lparr>build_type = Some ''RelWithDebInfo'', action = ''debug'', build_aarch64 = False\<rparr> \<and>
   (\<exists>s. main_steps \<lparr>build_type = Some ''RelWithDebInfo'', action = ''debug'',
                     build_aarch64 = False\<rparr> = Inr [s] \<and>
        field s ''commands'' =
          Some (JList
            [JStr ''if [[ "debug" == "debug" ]]; then export ML_DEBUG=1; fi'',
             JStr ''.buildkite/scripts/steps/build_and_test.sh''])) \<and>
   (\<exists>s. main_steps (a\<lparr>action := ''build''\<rparr>) = Inr [s] \<and>
        field s ''commands'' =
          Some (JList
            [JStr ''if [[ "build" == "debug" ]]; then export ML_DEBUG=1; fi'',
             JStr ''.buildkite/scripts/steps/build_and_test.sh''])) \<and>
   ''build'' \<noteq> ''debug''\<close>
  by (simp add: parse_args_def build_types_def actions_def main_steps_single step_aarch64)

text \<open>
  C2. The command line without any option is accepted with the build type absent and
  the action \<^verbatim>\<open>build\<close>; the list of build types is the single \<^verbatim>\<open>RelWithDebInfo\<close>, and
  \<^verbatim>\<open>main\<close> builds exactly one step record, with the label
  \<^verbatim>\<open>Build & test :cpp: for MacOS-aarch64-RelWithDebInfo :macos:\<close>, \<^verbatim>\<open>depends_on\<close> equal to
  \<^verbatim>\<open>check_style\<close> and the key \<^verbatim>\<open>build_test_macos-aarch64-RelWithDebInfo\<close>.
\<close>

theorem no_flags_single_step:
  \<open>parse_args \<lparr>opt_build_type = None, opt_action = None, opt_build_aarch64 = False\<rparr> =
     Inr \<lparr>build_type = None, action = ''build'', build_aarch64 = False\<rparr> \<and>
   build_types = [''RelWithDebInfo''] \<and>
   (\<exists>s. main_steps \<lparr>build_type = None, action = ''build'', build_aarch64 = False\<rparr> = Inr [s] \<and>
        field s ''label'' =
          Some (JStr ''Build & test :cpp: for MacOS-aarch64-RelWithDebInfo :macos:'') \<and>
        field s ''depends_on'' = Some (JStr ''check_style'') \<and>
        field s ''key'' = Some (JStr ''build_test_macos-aarch64-RelWithDebInfo''))\<close>
  by (simp add: parse_args_def build_types_def main_steps_single step_aarch64)

subsection \<open>How many steps, and in which order\<close>

lemma product_py_index_bound:
  assumes "i < n" "j < (m::nat)"
  shows "i * m + j < n * m"
proof -
  have "i * m + j < i * m + m" using assms(2) by simp
  also have "\<dots> = Suc i * m" by simp
  also have "\<dots> \<le> n * m" using assms(1) by (intro mult_le_mono1) simp
  finally show ?thesis .
qed

text \<open>
  C3. \<^verbatim>\<open>main\<close> always leaves its loop normally, and the number of step records is the
  number of architectures times the number of selected build types: there is one
  architecture; one build type is selected when \<^verbatim>\<open>--build-type\<close> is given, and the whole
  list \<^verbatim>\<open>build_types\<close> otherwise. The records stand in architecture-major order: the
  record for the \<open>i\<close>-th architecture and the \<open>j\<close>-th selected build type, in the order of
  the lists, is at position \<open>i\<close> times the number of selected build types plus \<open>j\<close>.
\<close>

theorem step_count_and_order:
  "\<exists>steps. main_steps a = Inr steps \<and>
     length steps = length archs * length (cur_build_types a) \<and>
     length archs = 1 \<and>
     length (cur_build_types a) = (case build_type a of Some b \<Rightarrow> 1 | None \<Rightarrow> length build_types) \<and>
     (\<forall>i < length archs. \<forall>j < length (cur_build_types a).
        Inr (steps ! (i * length (cur_build_types a) + j)) =
          step a (archs ! i) (cur_build_types a ! j))"
proof -
  let ?cur = "cur_build_types a"
  let ?ps = "product_py archs ?cur"
  let ?f = "\<lambda>(arch, b). step a arch b"
  from main_steps_map [of a] obtain ss where
    ss: "main_steps a = Inr ss" and m: "map Inr ss = map ?f ?ps" by blast
  have len: "length ss = length archs * length ?cur"
    using arg_cong [OF m, of length] by (simp add: product_py_length)
  have nth: "Inr (ss ! (i * length ?cur + j)) = step a (archs ! i) (?cur ! j)"
    if i: "i < length archs" and j: "j < length ?cur" for i j
  proof -
    let ?k = "i * length ?cur + j"
    have k: "?k < length ss" using len product_py_index_bound [OF i j] by simp
    then have "Inr (ss ! ?k) = map Inr ss ! ?k" by simp
    also have "\<dots> = ?f (?ps ! ?k)" using k len by (simp add: m product_py_length)
    also have "\<dots> = step a (archs ! i) (?cur ! j)" by (simp add: product_py_nth [OF i j])
    finally show ?thesis .
  qed
  have "length archs = 1" by (simp add: archs_def)
  moreover have "length ?cur = (case build_type a of Some b \<Rightarrow> 1 | None \<Rightarrow> length build_types)"
    by (simp add: cur_build_types_def split: option.splits)
  ultimately show ?thesis using ss len nth by blast
qed

theorem step_count_and_order_witness:
  "\<exists>steps. main_steps \<lparr>build_type = None, action = ''build'', build_aarch64 = False\<rparr> = Inr steps \<and>
     length steps = 1 \<and>
     Inr (steps ! 0) =
       step \<lparr>build_type = None, action = ''build'', build_aarch64 = False\<rparr>
         ''aarch64'' ''RelWithDebInfo''"
  using step_count_and_order [of "\<lparr>build_type = None, action = ''build'', build_aarch64 = False\<rparr>"]
  by (simp add: archs_def cur_build_types_def build_types_def)

subsection \<open>What \<^verbatim>\<open>main\<close> reads of its argument\<close>

text \<open>
  The loop body reads \<^verbatim>\<open>args.action\<close> only, and the loop runs over the selected build
  types: the output is the same for two argument records that agree on both.
\<close>

lemma step_action: "action a = action b \<Longrightarrow> step a arch bt = step b arch bt"
  by (simp add: step_def split: sum.splits)

lemma main_loop_action: "action a = action b \<Longrightarrow> main_loop a ps acc = main_loop b ps acc"
proof (induction ps arbitrary: acc)
  case Nil
  show ?case by simp
next
  case (Cons p ps)
  obtain arch bt where p: "p = (arch, bt)" by (cases p)
  show ?case
    using Cons.IH [OF Cons.prems] step_action [OF Cons.prems, of arch bt]
    by (simp add: p split: sum.splits)
qed

lemma main_cong:
  assumes "cur_build_types a = cur_build_types b" and "action a = action b"
  shows "main a = main b"
  using assms main_loop_action [OF assms(2)]
  by (simp add: main_def main_pipeline_def main_steps_def)

subsection \<open>Accepted command lines\<close>

text \<open>
  An accepted command line has the build type absent or in \<^verbatim>\<open>build_types\<close>, and an action
  in \<^verbatim>\<open>actions\<close>; the selected build types are then the one build type of the list.
\<close>

lemma parse_args_valid:
  assumes "parse_args c = Inr a"
  shows "(build_type a = None \<or> build_type a = Some ''RelWithDebInfo'') \<and>
         (action a = ''build'' \<or> action a = ''debug'')"
  using assms
  by (auto simp: parse_args_def build_types_def actions_def split: option.splits if_splits)

lemma parse_args_cur_build_types:
  "parse_args c = Inr a \<Longrightarrow> cur_build_types a = [''RelWithDebInfo'']"
  using parse_args_valid [of c a] by (auto simp: cur_build_types_def build_types_def)

lemma script_accepted:
  "parse_args c = Inr a \<Longrightarrow> main a = Inr out \<Longrightarrow> script c = \<lparr>stdout = out, status = 0\<rparr>"
  by (simp add: script_def)

subsection \<open>The step record and the text written\<close>

lemma step_shape:
  assumes "step a ''aarch64'' b = Inr s"
  shows \<open>\<exists>label provider image command1 command2 key env paths files format context.
          s = JDict
            [(''label'', JStr label),
             (''timeout_in_minutes'', JStr ''300''),
             (''agents'', JDict [(''provider'', JStr provider), (''image'', JStr image)]),
             (''commands'', JList [JStr command1, JStr command2]),
             (''depends_on'', JStr ''check_style''),
             (''key'', JStr key),
             (''env'', JDict env),
             (''artifact_paths'', JStr paths),
             (''plugins'', JDict
                [(''test-collector#v1.2.0'', JDict
                   [(''files'', JStr files), (''format'', JStr format)])]),
             (''notify'', JList
                [JDict [(''github_commit_status'', JDict [(''context'', JStr context)])]])] \<and>
          (\<forall>v \<in> snd ` set env. \<exists>x. v = JStr x)\<close>
proof -
  from assms have "s = projr (step a ''aarch64'' b)" by simp
  then show ?thesis
    unfolding step_aarch64 sum.sel
    by (intro exI conjI) (assumption, simp)
qed

text \<open>
  The text \<^verbatim>\<open>main\<close> prints for either action, line by line: \<^verbatim>\<open>json.dumps\<close> escapes the
  double quotes of the first command with a backslash.
\<close>

lemma main_build_text:
  \<open>main \<lparr>build_type = None, action = ''build'', build_aarch64 = False\<rparr> = Inr
     (concat (map (\<lambda>line. line @ [CHR 0x0A])
       [''{'',
        ''  "steps": ['',
        ''    {'',
        ''      "label": "Build & test :cpp: for MacOS-aarch64-RelWithDebInfo :macos:",'',
        ''      "timeout_in_minutes": "300",'',
        ''      "agents": {'',
        ''        "provider": "orka",'',
        ''        "image": "ml-macos-13-arm-004.orkasi"'',
        ''      },'',
        ''      "commands": ['',
        ''        "if [[ '' @ [CHR 0x5C] @ ''"'' @ ''build'' @ [CHR 0x5C] @ ''" == '' @
          [CHR 0x5C] @ ''"debug'' @ [CHR 0x5C] @ ''" ]]; then export ML_DEBUG=1; fi",'',
        ''        ".buildkite/scripts/steps/build_and_test.sh"'',
        ''      ],'',
        ''      "depends_on": "check_style",'',
        ''      "key": "build_test_macos-aarch64-RelWithDebInfo",'',
        ''      "env": {'',
        ''        "TMPDIR": "/tmp",'',
        ''        "HOMEBREW_PREFIX": "/opt/homebrew",'',
        ''        "PATH": "/opt/homebrew/bin:$PATH",'',
        ''        "ML_DEBUG": "0",'',
        ''        "CPP_CROSS_COMPILE": "",'',
        ''        "CMAKE_FLAGS": "-DCMAKE_TOOLCHAIN_FILE=cmake/darwin-aarch64.cmake",'',
        ''        "RUN_TESTS": "true",'',
        ''        "BOOST_TEST_OUTPUT_FORMAT_FLAGS": "--logger=JUNIT,error,boost_test_results.junit"'',
        ''      },'',
        ''      "artifact_paths": "*/**/unittest/boost_test_results.junit;*/**/unittest/ml_test_*",'',
        ''      "plugins": {'',
        ''        "test-collector#v1.2.0": {'',
        ''          "files": "*/*/unittest/boost_test_results.junit",'',
        ''          "format": "junit"'',
        ''        }'',
        ''      },'',
        ''      "notify": ['',
        ''        {'',
        ''          "github_commit_status": {'',
        ''            "context": "Build and test on MacOS aarch64 RelWithDebInfo"'',
        ''          }'',
        ''        }'',
        ''      ]'',
        ''    }'',
        ''  ]'',
        ''}'']))\<close>
  by code_simp

lemma main_debug_text:
  \<open>main \<lparr>build_type = None, action = ''debug'', build_aarch64 = False\<rparr> = Inr
     (concat (map (\<lambda>line. line @ [CHR 0x0A])
       [''{'',
        ''  "steps": ['',
        ''    {'',
        ''      "label": "Build & test :cpp: for MacOS-aarch64-RelWithDebInfo :macos:",'',
        ''      "timeout_in_minutes": "300",'',
        ''      "agents": {'',
        ''        "provider": "orka",'',
        ''        "image": "ml-macos-13-arm-004.orkasi"'',
        ''      },'',
        ''      "commands": ['',
        ''        "if [[ '' @ [CHR 0x5C] @ ''"'' @ ''debug'' @ [CHR 0x5C] @ ''" == '' @
          [CHR 0x5C] @ ''"debug'' @ [CHR 0x5C] @ ''" ]]; then export ML_DEBUG=1; fi",'',
        ''        ".buildkite/scripts/steps/build_and_test.sh"'',
        ''      ],'',
        ''      "depends_on": "check_style",'',
        ''      "key": "build_test_macos-aarch64-RelWithDebInfo",'',
        ''      "env": {'',
        ''        "TMPDIR": "/tmp",'',
        ''        "HOMEBREW_PREFIX": "/opt/homebrew",'',
        ''        "PATH": "/opt/homebrew/bin:$PATH",'',
        ''        "ML_DEBUG": "0",'',
        ''        "CPP_CROSS_COMPILE": "",'',
        ''        "CMAKE_FLAGS": "-DCMAKE_TOOLCHAIN_FILE=cmake/darwin-aarch64.cmake",'',
        ''        "RUN_TESTS": "true",'',
        ''        "BOOST_TEST_OUTPUT_FORMAT_FLAGS": "--logger=JUNIT,error,boost_test_results.junit"'',
        ''      },'',
        ''      "artifact_paths": "*/**/unittest/boost_test_results.junit;*/**/unittest/ml_test_*",'',
        ''      "plugins": {'',
        ''        "test-collector#v1.2.0": {'',
        ''          "files": "*/*/unittest/boost_test_results.junit",'',
        ''          "format": "junit"'',
        ''        }'',
        ''      },'',
        ''      "notify": ['',
        ''        {'',
        ''          "github_commit_status": {'',
        ''            "context": "Build and test on MacOS aarch64 RelWithDebInfo"'',
        ''          }'',
        ''        }'',
        ''      ]'',
        ''    }'',
        ''  ]'',
        ''}'']))\<close>
  by code_simp

subsection \<open>The format of the output\<close>

text \<open>
  C4. For every accepted command line, \<^verbatim>\<open>pipeline\<close> is a dictionary with the single key
  \<^verbatim>\<open>steps\<close> that holds the list of step records. Every step record has exactly the fields
  \<^verbatim>\<open>label\<close>, \<^verbatim>\<open>timeout_in_minutes\<close>, \<^verbatim>\<open>agents\<close> (with \<^verbatim>\<open>provider\<close> and \<^verbatim>\<open>image\<close>),
  \<^verbatim>\<open>commands\<close> (a list of two strings), \<^verbatim>\<open>depends_on\<close>, \<^verbatim>\<open>key\<close>, \<^verbatim>\<open>env\<close> (a dictionary of
  strings), \<^verbatim>\<open>artifact_paths\<close>, \<^verbatim>\<open>plugins\<close> (with \<^verbatim>\<open>test-collector#v1.2.0\<close>, holding
  \<^verbatim>\<open>files\<close> and \<^verbatim>\<open>format\<close>) and \<^verbatim>\<open>notify\<close> (a list of one dictionary, with
  \<^verbatim>\<open>github_commit_status\<close> holding \<^verbatim>\<open>context\<close>), in this order. The script prints
  \<^verbatim>\<open>json.dumps(pipeline, indent=2)\<close> and exits with status 0; the text printed is given in
  full, each level of nesting two spaces deeper than the one around it.
\<close>

theorem output_format:
  assumes "parse_args c = Inr a"
  shows \<open>\<exists>steps.
     main_pipeline a = Inr (JDict [(''steps'', JList steps)]) \<and>
     (\<forall>s \<in> set steps.
        \<exists>label provider image command1 command2 key env paths files format context.
          s = JDict
            [(''label'', JStr label),
             (''timeout_in_minutes'', JStr ''300''),
             (''agents'', JDict [(''provider'', JStr provider), (''image'', JStr image)]),
             (''commands'', JList [JStr command1, JStr command2]),
             (''depends_on'', JStr ''check_style''),
             (''key'', JStr key),
             (''env'', JDict env),
             (''artifact_paths'', JStr paths),
             (''plugins'', JDict
                [(''test-collector#v1.2.0'', JDict
                   [(''files'', JStr files), (''format'', JStr format)])]),
             (''notify'', JList
                [JDict [(''github_commit_status'', JDict [(''context'', JStr context)])]])] \<and>
          (\<forall>v \<in> snd ` set env. \<exists>x. v = JStr x)) \<and>
     main a = Inr (dumps (JDict [(''steps'', JList steps)]) (Some 2) @ [CHR 0x0A]) \<and>
     script c = \<lparr>stdout =
        concat (map (\<lambda>line. line @ [CHR 0x0A])
         [''{'',
          ''  "steps": ['',
          ''    {'',
          ''      "label": "Build & test :cpp: for MacOS-aarch64-RelWithDebInfo :macos:",'',
          ''      "timeout_in_minutes": "300",'',
          ''      "agents": {'',
          ''        "provider": "orka",'',
          ''        "image": "ml-macos-13-arm-004.orkasi"'',
          ''      },'',
          ''      "commands": ['',
          ''        "if [[ '' @ [CHR 0x5C] @ ''"'' @ action a @ [CHR 0x5C] @ ''" == '' @
            [CHR 0x5C] @ ''"debug'' @ [CHR 0x5C] @ ''" ]]; then export ML_DEBUG=1; fi",'',
          ''        ".buildkite/scripts/steps/build_and_test.sh"'',
          ''      ],'',
          ''      "depends_on": "check_style",'',
          ''      "key": "build_test_macos-aarch64-RelWithDebInfo",'',
          ''      "env": {'',
          ''        "TMPDIR": "/tmp",'',
          ''        "HOMEBREW_PREFIX": "/opt/homebrew",'',
          ''        "PATH": "/opt/homebrew/bin:$PATH",'',
          ''        "ML_DEBUG": "0",'',
          ''        "CPP_CROSS_COMPILE": "",'',
          ''        "CMAKE_FLAGS": "-DCMAKE_TOOLCHAIN_FILE=cmake/darwin-aarch64.cmake",'',
          ''        "RUN_TESTS": "true",'',
          ''        "BOOST_TEST_OUTPUT_FORMAT_FLAGS": "--logger=JUNIT,error,boost_test_results.junit"'',
          ''      },'',
          ''      "artifact_paths": "*/**/unittest/boost_test_results.junit;*/**/unittest/ml_test_*",'',
          ''      "plugins": {'',
          ''        "test-collector#v1.2.0": {'',
          ''          "files": "*/*/unittest/boost_test_results.junit",'',
          ''          "format": "junit"'',
          ''        }'',
          ''      },'',
          ''      "notify": ['',
          ''        {'',
          ''          "github_commit_status": {'',
          ''            "context": "Build and test on MacOS aarch64 RelWithDebInfo"'',
          ''          }'',
          ''        }'',
          ''      ]'',
          ''    }'',
          ''  ]'',
          ''}'']),
        status = 0\<rparr>\<close>
proof -
  let ?bt = "case build_type a of None \<Rightarrow> ''RelWithDebInfo'' | Some b \<Rightarrow> b"
  let ?build = "\<lparr>build_type = None, action = ''build'', build_aarch64 = False\<rparr>"
  let ?debug = "\<lparr>build_type = None, action = ''debug'', build_aarch64 = False\<rparr>"
  obtain s where s: "step a ''aarch64'' ?bt = Inr s" using step_aarch64 by blast
  have steps: "main_steps a = Inr [s]" by (simp add: main_steps_single s)
  have pipeline: "main_pipeline a = Inr (JDict [(''steps'', JList [s])])"
    by (simp add: main_pipeline_def steps)
  have out: "main a = Inr (dumps (JDict [(''steps'', JList [s])]) (Some 2) @ [CHR 0x0A])"
    by (simp add: main_def pipeline)
  have cur: "cur_build_types a = [''RelWithDebInfo'']"
    by (rule parse_args_cur_build_types [OF assms])
  have cur0: "cur_build_types ?build = [''RelWithDebInfo'']"
    "cur_build_types ?debug = [''RelWithDebInfo'']"
    by (simp_all add: cur_build_types_def build_types_def)
  from parse_args_valid [OF assms] have action: "action a = ''build'' \<or> action a = ''debug''"
    by simp
  show ?thesis
    apply (rule exI [of _ "[s]"])
    apply (intro conjI ballI)
    subgoal by (rule pipeline)
    subgoal for t using step_shape [OF s] by simp
    subgoal by (rule out)
    subgoal
      using action
    proof
      assume act: "action a = ''build''"
      have same: "main a = main ?build" by (rule main_cong) (simp_all add: cur cur0 act)
      from script_accepted [OF assms main_build_text [folded same]] show ?thesis
        unfolding act .
    next
      assume act: "action a = ''debug''"
      have same: "main a = main ?debug" by (rule main_cong) (simp_all add: cur cur0 act)
      from script_accepted [OF assms main_debug_text [folded same]] show ?thesis
        unfolding act .
    qed
    done
qed

theorem output_format_witness:
  "parse_args \<lparr>opt_build_type = None, opt_action = None, opt_build_aarch64 = False\<rparr> =
     Inr \<lparr>build_type = None, action = ''build'', build_aarch64 = False\<rparr> \<and>
   status (script \<lparr>opt_build_type = None, opt_action = None, opt_build_aarch64 = False\<rparr>) = 0"
proof -
  let ?c = "\<lparr>opt_build_type = None, opt_action = None, opt_build_aarch64 = False\<rparr>"
  let ?a = "\<lparr>build_type = None, action = ''build'', build_aarch64 = False\<rparr>"
  have accepted: "parse_args ?c = Inr ?a" by (simp add: parse_args_def)
  from output_format [OF accepted] have "status (script ?c) = 0"
    by (elim exE conjE) simp
  with accepted show ?thesis by simp
qed

subsection \<open>The flag \<^verbatim>\<open>--build-aarch64\<close>\<close>

lemma main_flag: "main (a\<lparr>build_aarch64 := f\<rparr>) = main a"
  by (rule main_cong) (simp_all add: cur_build_types_def)

lemma parse_args_flag:
  "parse_args (c\<lparr>opt_build_aarch64 := f\<rparr>) =
     (case parse_args c of Inl e \<Rightarrow> Inl e | Inr a \<Rightarrow> Inr (a\<lparr>build_aarch64 := f\<rparr>))"
  by (simp add: parse_args_def split: option.splits)

text \<open>
  C5. The flag \<^verbatim>\<open>--build-aarch64\<close> is accepted and changes nothing: for every choice of the
  other two options, a run with the flag and a run without it end with the same standard
  output and the same exit status; and \<^verbatim>\<open>main\<close> prints the same for two argument records
  that differ in the attribute \<^verbatim>\<open>build_aarch64\<close> only.
\<close>

theorem build_aarch64_flag_ignored:
  "script (c\<lparr>opt_build_aarch64 := True\<rparr>) = script (c\<lparr>opt_build_aarch64 := False\<rparr>) \<and>
   main (a\<lparr>build_aarch64 := True\<rparr>) = main (a\<lparr>build_aarch64 := False\<rparr>)"
  by (simp add: script_def parse_args_flag main_flag split: sum.splits)

subsection \<open>Rejected command lines\<close>

text \<open>
  C7. A command line whose \<^verbatim>\<open>--action\<close> value is not in \<^verbatim>\<open>actions\<close> (such as
  \<^verbatim>\<open>--action release\<close>), or whose \<^verbatim>\<open>--build-type\<close> value is not in \<^verbatim>\<open>build_types\<close>, is
  rejected by \<^verbatim>\<open>parse_args\<close>: the process exits with status 2, \<^verbatim>\<open>main\<close> is not called and
  nothing is written to standard output.
\<close>

theorem invalid_choice_rejected:
  assumes "(\<exists>v. opt_action c = Some v \<and> v \<notin> set actions) \<or>
           (\<exists>b. opt_build_type c = Some b \<and> b \<notin> set build_types)"
  shows "parse_args c = Inl (SystemExit 2) \<and> script c = \<lparr>stdout = [], status = 2\<rparr>"
proof -
  from assms have "parse_args c = Inl (SystemExit 2)"
    by (auto simp: parse_args_def split: option.splits)
  then show ?thesis by (simp add: script_def)
qed

theorem invalid_choice_rejected_witness:
  "''release'' \<notin> set actions \<and>
   script \<lparr>opt_build_type = None, opt_action = Some ''release'', opt_build_aarch64 = False\<rparr> =
     \<lparr>stdout = [], status = 2\<rparr>"
proof -
  let ?c = "\<lparr>opt_build_type = None, opt_action = Some ''release'', opt_build_aarch64 = False\<rparr>"
  have r: "''release'' \<notin> set actions" by (simp add: actions_def)
  then have "(\<exists>v. opt_action ?c = Some v \<and> v \<notin> set actions) \<or>
             (\<exists>b. opt_build_type ?c = Some b \<and> b \<notin> set build_types)" by simp
  from invalid_choice_rejected [OF this] r show ?thesis by simp
qed

subsection \<open>The lookups in \<^verbatim>\<open>agents\<close> and \<^verbatim>\<open>envs\<close>\<close>

text \<open>
  C8. Every architecture of \<^verbatim>\<open>archs\<close> is a key of \<^verbatim>\<open>agents\<close> and of \<^verbatim>\<open>envs\<close>; every pair
  the loop runs over has its architecture from \<^verbatim>\<open>archs\<close>, so the loop body raises no
  \<^verbatim>\<open>KeyError\<close> for it; and \<^verbatim>\<open>main\<close> leaves its loop normally and prints, for every
  argument record.
\<close>

theorem lookups_succeed:
  "(\<forall>arch \<in> set archs.
      (\<exists>agent. getitem agents arch = Inr agent) \<and> (\<exists>env. getitem envs arch = Inr env)) \<and>
   (\<forall>p \<in> set (product_py archs (cur_build_types a)).
      fst p \<in> set archs \<and> (\<exists>s. step a (fst p) (snd p) = Inr s)) \<and>
   (\<exists>steps. main_steps a = Inr steps) \<and>
   (\<exists>out. main a = Inr out)"
proof -
  have tables: "\<forall>arch \<in> set archs.
      (\<exists>agent. getitem agents arch = Inr agent) \<and> (\<exists>env. getitem envs arch = Inr env)"
    by (simp add: archs_def getitem_def agents_def envs_def)
  have pairs: "\<forall>p \<in> set (product_py archs (cur_build_types a)).
      fst p \<in> set archs \<and> (\<exists>s. step a (fst p) (snd p) = Inr s)"
    using step_ok by (auto simp: product_py_set)
  obtain steps where steps: "main_steps a = Inr steps" using main_steps_map [of a] by blast
  then have "\<exists>out. main a = Inr out" by (simp add: main_def main_pipeline_def)
  with tables pairs steps show ?thesis by blast
qed

theorem lookups_succeed_witness:
  "(\<exists>agent. getitem agents ''aarch64'' = Inr agent) \<and>
   (\<exists>env. getitem envs ''aarch64'' = Inr env) \<and>
   (\<exists>s. step \<lparr>build_type = None, action = ''build'', build_aarch64 = False\<rparr>
          ''aarch64'' ''RelWithDebInfo'' = Inr s) \<and>
   (\<exists>out. main \<lparr>build_type = None, action = ''build'', build_aarch64 = False\<rparr> = Inr out)"
  using lookups_succeed [of "\<lparr>build_type = None, action = ''build'', build_aarch64 = False\<rparr>"]
  by (simp add: archs_def cur_build_types_def build_types_def)

subsection \<open>Fields that do not depend on the arguments\<close>

lemma main_steps_member:
  assumes "main_steps a = Inr steps" and "s \<in> set steps"
  shows "\<exists>b. step a ''aarch64'' b = Inr s"
  using assms by (auto simp: main_steps_single step_aarch64)

text \<open>
  C9. In every step record that \<^verbatim>\<open>main\<close> builds, for every argument record and so also
  for the action \<^verbatim>\<open>debug\<close>, the field \<^verbatim>\<open>env\<close> is a dictionary that maps \<^verbatim>\<open>ML_DEBUG\<close> to the
  string \<^verbatim>\<open>0\<close>. The action changes the conditional-export command string and nothing
  else: with any other action in the place of the given one, \<^verbatim>\<open>main\<close> builds step records
  with the same \<^verbatim>\<open>env\<close> fields and the same value for every field other than
  \<^verbatim>\<open>commands\<close>; the \<^verbatim>\<open>commands\<close> of a step are the conditional with the action of the run
  in it, followed by the same script; and the records for the other action are the given
  records with the value of \<^verbatim>\<open>commands\<close> replaced, every other pair left as it is and
  in place.
\<close>

theorem env_ml_debug_zero:
  assumes "main_steps a = Inr steps" and "s \<in> set steps"
  shows \<open>(\<exists>env. field s ''env'' = Some (JDict env) \<and>
               map_of env ''ML_DEBUG'' = Some (JStr ''0'')) \<and>
         (\<exists>steps'. main_steps (a\<lparr>action := act\<rparr>) = Inr steps' \<and>
               map (\<lambda>t. field t ''env'') steps' = map (\<lambda>t. field t ''env'') steps \<and>
               (\<forall>k. k \<noteq> ''commands'' \<longrightarrow>
                  map (\<lambda>t. field t k) steps' = map (\<lambda>t. field t k) steps) \<and>
               map (\<lambda>t. field t ''commands'') steps =
                 map (\<lambda>t. Some (JList
                   [JStr (''if [[ "'' @ action a @ ''" == "debug" ]]; then export ML_DEBUG=1; fi''),
                    JStr ''.buildkite/scripts/steps/build_and_test.sh''])) steps \<and>
               map (\<lambda>t. field t ''commands'') steps' =
                 map (\<lambda>t. Some (JList
                   [JStr (''if [[ "'' @ act @ ''" == "debug" ]]; then export ML_DEBUG=1; fi''),
                    JStr ''.buildkite/scripts/steps/build_and_test.sh''])) steps \<and>
               steps' =
                 map (\<lambda>t. case t of
                    JDict d \<Rightarrow> JDict (map (\<lambda>(k, v).
                      if k = ''commands''
                      then (k, JList
                        [JStr (''if [[ "'' @ act @ ''" == "debug" ]]; then export ML_DEBUG=1; fi''),
                         JStr ''.buildkite/scripts/steps/build_and_test.sh''])
                      else (k, v)) d)
                  | _ \<Rightarrow> t) steps)\<close>
proof -
  let ?bt = "case build_type a of None \<Rightarrow> ''RelWithDebInfo'' | Some b \<Rightarrow> b"
  let ?s = "projr (step a ''aarch64'' ?bt)"
  let ?s' = "projr (step (a\<lparr>action := act\<rparr>) ''aarch64'' ?bt)"
  have steps: "steps = [?s]"
    using assms(1) by (simp add: main_steps_single step_aarch64)
  have steps': "main_steps (a\<lparr>action := act\<rparr>) = Inr [?s']"
    by (simp add: main_steps_single step_aarch64)
  from assms(2) have s: "s = ?s" by (simp add: steps)
  have env: "\<exists>env. field s ''env'' = Some (JDict env) \<and>
               map_of env ''ML_DEBUG'' = Some (JStr ''0'')"
    by (simp add: s step_aarch64)
  have same_env: "field ?s' ''env'' = field ?s ''env''"
    by (simp add: step_aarch64)
  have others: "field ?s' k = field ?s k" if "k \<noteq> ''commands''" for k
    using that by (simp add: step_aarch64)
  have commands: \<open>field ?s ''commands'' = Some (JList
                   [JStr (''if [[ "'' @ action a @ ''" == "debug" ]]; then export ML_DEBUG=1; fi''),
                    JStr ''.buildkite/scripts/steps/build_and_test.sh''])\<close>
    by (simp add: step_aarch64)
  have commands': \<open>field ?s' ''commands'' = Some (JList
                   [JStr (''if [[ "'' @ act @ ''" == "debug" ]]; then export ML_DEBUG=1; fi''),
                    JStr ''.buildkite/scripts/steps/build_and_test.sh''])\<close>
    by (simp add: step_aarch64)
  show ?thesis
    apply (rule conjI)
    subgoal by (rule env)
    apply (rule exI [of _ "[?s']"])
    apply (intro conjI allI impI)
    subgoal by (rule steps')
    subgoal by (simp only: steps list.map same_env)
    subgoal for k by (simp add: steps others)
    subgoal by (simp only: steps list.map commands)
    subgoal by (simp only: steps list.map commands')
    subgoal by (simp add: steps step_aarch64)
    done
qed

theorem env_ml_debug_zero_witness:
  "\<exists>steps s.
     main_steps \<lparr>build_type = None, action = ''debug'', build_aarch64 = False\<rparr> = Inr steps \<and>
     s \<in> set steps \<and>
     (\<exists>env. field s ''env'' = Some (JDict env) \<and> map_of env ''ML_DEBUG'' = Some (JStr ''0''))"
proof -
  let ?a = "\<lparr>build_type = None, action = ''debug'', build_aarch64 = False\<rparr>"
  obtain s where s: "main_steps ?a = Inr [s]" by (simp add: main_steps_single step_aarch64)
  have mem: "s \<in> set [s]" by simp
  from env_ml_debug_zero [OF s mem, THEN conjunct1] s mem show ?thesis by blast
qed

text \<open>
  C10. In every step record that \<^verbatim>\<open>main\<close> builds, \<^verbatim>\<open>timeout_in_minutes\<close> is the string
  \<^verbatim>\<open>300\<close>, which \<^verbatim>\<open>json.dumps\<close> writes between double quotes, where the number 300 would
  be written as its bare digits; and \<^verbatim>\<open>artifact_paths\<close> is one string, the two patterns
  separated by a semicolon, not a list.
\<close>

theorem timeout_and_artifact_paths_are_strings:
  assumes "main_steps a = Inr steps" and "s \<in> set steps"
  shows "field s ''timeout_in_minutes'' = Some (JStr ''300'') \<and>
         field s ''artifact_paths'' =
           Some (JStr ''*/**/unittest/boost_test_results.junit;*/**/unittest/ml_test_*'') \<and>
         iterencode indent level (JStr ''300'') = [CHR 0x22] @ ''300'' @ [CHR 0x22] \<and>
         iterencode indent level (JInt 300) = ''300''"
proof -
  from main_steps_member [OF assms] obtain b where b: "step a ''aarch64'' b = Inr s" by blast
  then have "s = projr (step a ''aarch64'' b)" by simp
  then have fields: "field s ''timeout_in_minutes'' = Some (JStr ''300'') \<and>
         field s ''artifact_paths'' =
           Some (JStr ''*/**/unittest/boost_test_results.junit;*/**/unittest/ml_test_*'')"
    by (simp add: step_aarch64)
  have str: "py_encode_basestring_ascii ''300'' = [CHR 0x22] @ ''300'' @ [CHR 0x22]"
    by code_simp
  have num: "int_repr 300 = ''300''" by code_simp
  from fields str num show ?thesis by simp
qed

theorem timeout_and_artifact_paths_are_strings_witness:
  "\<exists>steps s.
     main_steps \<lparr>build_type = None, action = ''build'', build_aarch64 = False\<rparr> = Inr steps \<and>
     s \<in> set steps \<and>
     field s ''timeout_in_minutes'' = Some (JStr ''300'') \<and>
     field s ''artifact_paths'' =
       Some (JStr ''*/**/unittest/boost_test_results.junit;*/**/unittest/ml_test_*'')"
proof -
  let ?a = "\<lparr>build_type = None, action = ''build'', build_aarch64 = False\<rparr>"
  obtain s where s: "main_steps ?a = Inr [s]" by (simp add: main_steps_single step_aarch64)
  have mem: "s \<in> set [s]" by simp
  from timeout_and_artifact_paths_are_strings [OF s mem] s mem show ?thesis by blast
qed

end
